theory Spec2Isabelle
  imports Main "HOL-Library.Word"
begin

unbundle bit_operations_syntax

section \<open>Data model of tinyalloc.h\<close>

text \<open>
  The allocator is modelled for a target where \<^verbatim>\<open>sizeof(void*)\<close> is 8: pointers,
  \<^verbatim>\<open>uintptr_t\<close>, \<^verbatim>\<open>size_t\<close> and \<^verbatim>\<open>canary_t\<close> are all 64-bit words, every
  addition and subtraction wraps modulo \<open>2 ^ 64\<close>, comparisons are unsigned and the
  null pointer is the word \<open>0\<close>.
\<close>

type_synonym addr = "64 word"

definition WORDSIZE :: addr where
  "WORDSIZE = 8"

definition ALIGN_SIZE :: addr where
  "ALIGN_SIZE = WORDSIZE"

definition HEADER_LENGHT :: addr where
  "HEADER_LENGHT = 4 * WORDSIZE"

definition PADDING_SIZE :: addr where
  "PADDING_SIZE = ALIGN_SIZE"

record arena_t =
  start_addr :: addr
  arena_size :: addr
  head :: addr
  tail :: addr

record arena_info_t =
  total_size :: addr
  used_size :: addr
  allocated_size :: addr
  fragmentation_bytes :: addr
  allocated_blocks :: addr

text \<open>
  The struct inside \<^verbatim>\<open>union allocator_header\<close>. The field \<^verbatim>\<open>size\<close> is called
  \<open>size_h\<close> here, because \<open>size\<close> is a constant of HOL.
\<close>

record allocator_header =
  canary :: addr
  size_h :: addr
  prev :: addr
  "next" :: addr

text \<open>
  The memory the functions work on: the \<^verbatim>\<open>arena_t\<close> the caller passes by pointer, the
  header that is read when an address is dereferenced as \<^verbatim>\<open>allocator_header_t*\<close>, and
  the bytes that \<^verbatim>\<open>memcpy\<close> moves. Headers and payload bytes are kept in two stores
  indexed by address, so a header write never changes a payload byte of the model and
  two headers at different addresses never share storage.
\<close>

record machine =
  arena :: arena_t
  headers :: "addr \<Rightarrow> allocator_header"
  bytes :: "addr \<Rightarrow> 8 word"

text \<open>Assignments through a header pointer: \<^verbatim>\<open>p->size = v\<close>, \<^verbatim>\<open>p->prev = v\<close>, ...\<close>

definition store_size :: "(addr \<Rightarrow> allocator_header) \<Rightarrow> addr \<Rightarrow> addr \<Rightarrow> addr \<Rightarrow> allocator_header" where
  "store_size hs p v = hs(p := (hs p)\<lparr>size_h := v\<rparr>)"

definition store_prev :: "(addr \<Rightarrow> allocator_header) \<Rightarrow> addr \<Rightarrow> addr \<Rightarrow> addr \<Rightarrow> allocator_header" where
  "store_prev hs p v = hs(p := (hs p)\<lparr>prev := v\<rparr>)"

definition store_next :: "(addr \<Rightarrow> allocator_header) \<Rightarrow> addr \<Rightarrow> addr \<Rightarrow> addr \<Rightarrow> allocator_header" where
  "store_next hs p v = hs(p := (hs p)\<lparr>next := v\<rparr>)"

definition store_canary :: "(addr \<Rightarrow> allocator_header) \<Rightarrow> addr \<Rightarrow> addr \<Rightarrow> addr \<Rightarrow> allocator_header" where
  "store_canary hs p v = hs(p := (hs p)\<lparr>canary := v\<rparr>)"

section \<open>The functions of tinyalloc.c\<close>

definition next_padding_size :: "addr \<Rightarrow> addr" where
  "next_padding_size sz = (sz + (PADDING_SIZE - 1)) AND NOT (PADDING_SIZE - 1)"

definition arena_init :: "arena_t \<Rightarrow> arena_t" where
  "arena_init a = a\<lparr>head := 0, tail := 0\<rparr>"

definition arena_destroy :: "arena_t \<Rightarrow> arena_t" where
  "arena_destroy a = a\<lparr>head := 0, tail := 0, arena_size := 0, start_addr := 0\<rparr>"

definition compute_canary :: "allocator_header \<Rightarrow> addr" where
  "compute_canary h = size_h h XOR prev h XOR next h"

definition pointer_end_block :: "(addr \<Rightarrow> allocator_header) \<Rightarrow> addr \<Rightarrow> addr" where
  "pointer_end_block hs header_ptr = header_ptr + HEADER_LENGHT + size_h (hs header_ptr)"

definition available_block_space :: "arena_t \<Rightarrow> (addr \<Rightarrow> allocator_header) \<Rightarrow> addr \<Rightarrow> addr" where
  "available_block_space a hs header_ptr =
     (if next (hs header_ptr) \<noteq> 0
      then next (hs header_ptr) - pointer_end_block hs header_ptr
      else (start_addr a + arena_size a) - pointer_end_block hs header_ptr)"

definition ptr_to_header_ptr :: "addr \<Rightarrow> addr" where
  "ptr_to_header_ptr ptr = ptr - HEADER_LENGHT"

definition compute_block_size :: "addr \<Rightarrow> addr" where
  "compute_block_size padded_size = padded_size + HEADER_LENGHT"

definition header_to_dataptr :: "addr \<Rightarrow> addr" where
  "header_to_dataptr header_t = header_t + HEADER_LENGHT"

subsection \<open>arena_info\<close>

text \<open>
  The \<^verbatim>\<open>while(block)\<close> loop of \<^verbatim>\<open>arena_info\<close>. It follows \<^verbatim>\<open>next\<close> pointers until
  it reads a null one, so on a cyclic list it never returns: the result \<open>None\<close>.
  The loop returns \<^verbatim>\<open>last\<close> (here \<open>last_block\<close>) and the counters.
\<close>

partial_function (option) arena_info_loop ::
  "arena_t \<Rightarrow> (addr \<Rightarrow> allocator_header) \<Rightarrow> addr \<Rightarrow> addr \<Rightarrow> arena_info_t \<Rightarrow> (addr \<times> arena_info_t) option" where
  "arena_info_loop a hs block last_block info =
     (if block \<noteq> 0
      then arena_info_loop a hs (next (hs block)) block
             (info\<lparr>allocated_size := allocated_size info + (size_h (hs block) + HEADER_LENGHT),
                  allocated_blocks := allocated_blocks info + 1,
                  fragmentation_bytes :=
                    (if next (hs block) \<noteq> 0
                     then fragmentation_bytes info + available_block_space a hs block
                     else fragmentation_bytes info)\<rparr>)
      else Some (last_block, info))"

declare arena_info_loop.simps [code]

definition arena_info :: "machine \<Rightarrow> arena_info_t option" where
  "arena_info m =
     (let a = arena m;
          inf0 = \<lparr>total_size = arena_size a, used_size = 0, allocated_size = 0,
                  fragmentation_bytes = 0, allocated_blocks = 0\<rparr>
      in if head a \<noteq> 0
         then (case arena_info_loop a (headers m) (head a) 0 inf0 of
                 None \<Rightarrow> None
               | Some (last_block, info) \<Rightarrow>
                   Some (info\<lparr>used_size :=
                     (last_block + HEADER_LENGHT + size_h (headers m last_block)) - start_addr a\<rparr>))
         else Some (inf0\<lparr>total_size := arena_size a\<rparr>))"

subsection \<open>a_malloc\<close>

text \<open>
  The \<^verbatim>\<open>while(actual->next)\<close> search of \<^verbatim>\<open>a_malloc\<close>: it stops at the first header
  whose following gap holds \<^verbatim>\<open>block_size\<close> bytes, or at the header whose \<^verbatim>\<open>next\<close> is
  null. The variables \<^verbatim>\<open>prev\<close> and \<^verbatim>\<open>is_contiguous\<close> of the source are written
  in the loop and never read, so the loop returns \<^verbatim>\<open>actual\<close> only.
\<close>

partial_function (option) a_malloc_search ::
  "arena_t \<Rightarrow> (addr \<Rightarrow> allocator_header) \<Rightarrow> addr \<Rightarrow> addr \<Rightarrow> addr option" where
  "a_malloc_search a hs block_size actual =
     (if next (hs actual) \<noteq> 0
      then (if available_block_space a hs actual \<ge> block_size
            then Some actual
            else a_malloc_search a hs block_size (next (hs actual)))
      else Some actual)"

declare a_malloc_search.simps [code]

text \<open>
  The insertion after \<^verbatim>\<open>actual\<close> (lines 190 to 211), one assignment after the other,
  each reading the store the previous ones left.
\<close>

definition a_malloc_link :: "machine \<Rightarrow> addr \<Rightarrow> addr \<Rightarrow> addr \<Rightarrow> machine" where
  "a_malloc_link m actual newblock padded_size =
     (let hs1 = store_size (headers m) newblock padded_size;
          hs2 = store_prev hs1 newblock actual;
          hs3 = store_next hs2 newblock (next (hs2 actual));
          hs4 = store_canary hs3 newblock (compute_canary (hs3 newblock));
          hs5 = store_next hs4 actual newblock;
          hs6 = store_canary hs5 actual (compute_canary (hs5 actual))
      in if next (hs6 newblock) \<noteq> 0
         then (let next_ptr = next (hs6 newblock);
                   hs7 = store_prev hs6 next_ptr newblock;
                   hs8 = store_canary hs7 next_ptr (compute_canary (hs7 next_ptr))
               in m\<lparr>headers := hs8\<rparr>)
         else m\<lparr>headers := hs6, arena := (arena m)\<lparr>tail := newblock\<rparr>\<rparr>)"

text \<open>
  The header written at \<^verbatim>\<open>start_addr\<close> by the leading-gap branch (lines 142 to 150,
  \<open>nxt\<close> is the old head) and by the first-block branch (lines 222 to 231, \<open>nxt\<close>
  is null).
\<close>

definition a_malloc_first :: "(addr \<Rightarrow> allocator_header) \<Rightarrow> addr \<Rightarrow> addr \<Rightarrow> addr \<Rightarrow> addr \<Rightarrow> allocator_header" where
  "a_malloc_first hs newblock padded_size nxt =
     (let hs1 = store_size hs newblock padded_size;
          hs2 = store_prev hs1 newblock 0;
          hs3 = store_next hs2 newblock nxt
      in store_canary hs3 newblock (compute_canary (hs3 newblock)))"

text \<open>
  \<^verbatim>\<open>a_malloc\<close> returns the new memory and the pointer (\<open>0\<close> for \<^verbatim>\<open>NULL\<close>); \<open>None\<close>
  stands for a search that never returns.
\<close>

definition a_malloc :: "machine \<Rightarrow> addr \<Rightarrow> (machine \<times> addr) option" where
  "a_malloc m sz =
     (let a = arena m;
          padded_size = next_padding_size sz;
          block_size = compute_block_size padded_size;
          actual = head a
      in if actual > start_addr a \<and> actual - start_addr a \<ge> block_size
         then (let newblock = start_addr a
               in Some (m\<lparr>headers := a_malloc_first (headers m) newblock padded_size (head a),
                          arena := a\<lparr>head := newblock\<rparr>\<rparr>,
                        header_to_dataptr newblock))
         else if actual \<noteq> 0
         then (case a_malloc_search a (headers m) block_size actual of
                 None \<Rightarrow> None
               | Some actual' \<Rightarrow>
                   (let newblock = pointer_end_block (headers m) actual';
                        arena_end_ptr = start_addr a + arena_size a
                    in if newblock + padded_size > arena_end_ptr
                       then Some (m, 0)
                       else Some (a_malloc_link m actual' newblock padded_size,
                                  header_to_dataptr newblock)))
         else if block_size > arena_size a
         then Some (m, 0)
         else (let newblock = start_addr a
               in Some (m\<lparr>headers := a_malloc_first (headers m) newblock padded_size 0,
                          arena := a\<lparr>head := newblock, tail := newblock\<rparr>\<rparr>,
                        header_to_dataptr newblock)))"

subsection \<open>a_free\<close>

definition a_free :: "machine \<Rightarrow> addr \<Rightarrow> machine" where
  "a_free m ptr =
     (if ptr = 0 then m
      else (let header_ptr = ptr_to_header_ptr ptr;
                m1 = (if prev (headers m header_ptr) \<noteq> 0
                      then m\<lparr>headers := store_next (headers m) (prev (headers m header_ptr))
                                          (next (headers m header_ptr))\<rparr>
                      else m\<lparr>arena := (arena m)\<lparr>head := next (headers m header_ptr)\<rparr>\<rparr>)
            in if next (headers m1 header_ptr) \<noteq> 0
               then m1\<lparr>headers := store_prev (headers m1) (next (headers m1 header_ptr))
                                     (prev (headers m1 header_ptr))\<rparr>
               else m1\<lparr>arena := (arena m1)\<lparr>tail := prev (headers m1 header_ptr)\<rparr>\<rparr>))"

subsection \<open>a_realloc\<close>


text \<open>The in-place resize shared by the shrink branch and the grow-in-place branch.\<close>

definition a_realloc_resize :: "machine \<Rightarrow> addr \<Rightarrow> addr \<Rightarrow> machine" where
  "a_realloc_resize m header_ptr newsize_padded =
     (let hs1 = store_size (headers m) header_ptr newsize_padded
      in m\<lparr>headers := store_canary hs1 header_ptr (compute_canary (hs1 header_ptr))\<rparr>)"


section \<open>Lists of headers and concrete arenas\<close>

text \<open>
  \<open>block_list hs p bs\<close>: following \<^verbatim>\<open>next\<close> from the pointer \<open>p\<close> visits exactly
  the header addresses \<open>bs\<close>, in this order, and then reads a null pointer. With
  \<open>p\<close> the \<^verbatim>\<open>head\<close> of the arena, \<open>bs\<close> are the headers in the list.
\<close>

fun block_list :: "(addr \<Rightarrow> allocator_header) \<Rightarrow> addr \<Rightarrow> addr list \<Rightarrow> bool" where
  "block_list hs p [] = (p = 0)"
| "block_list hs p (b # bs) = (p = b \<and> b \<noteq> 0 \<and> block_list hs (next (hs b)) bs)"

text \<open>
  A host's arena over \<open>n\<close> bytes at address \<open>start\<close>, just after \<^verbatim>\<open>arena_init\<close>,
  in a memory of zero bytes.
\<close>

definition fresh_arena :: "addr \<Rightarrow> addr \<Rightarrow> machine" where
  "fresh_arena start n =
     \<lparr>arena = arena_init \<lparr>start_addr = start, arena_size = n, head = 0, tail = 0\<rparr>,
      headers = (\<lambda>_. \<lparr>canary = 0, size_h = 0, prev = 0, next = 0\<rparr>),
      bytes = (\<lambda>_. 0)\<rparr>"

text \<open>
  The states of a run on an arena of \<open>n\<close> bytes at \<open>0x1000\<close>:
  \<^verbatim>\<open>p1 = a_malloc(8)\<close> gives \<open>one_block\<close>, \<^verbatim>\<open>p2 = a_malloc(8)\<close> gives
  \<open>two_blocks\<close>, \<^verbatim>\<open>a_free(p1)\<close> gives \<open>second_block_only\<close>, and a third
  \<^verbatim>\<open>a_malloc(8)\<close> gives \<open>leading_gap_filled\<close>. The lemmas \<open>run_step1\<close> to
  \<open>run_step4\<close> below prove that the functions produce exactly these states.
\<close>

definition one_block :: "addr \<Rightarrow> machine" where
  "one_block n =
     \<lparr>arena = \<lparr>start_addr = 0x1000, arena_size = n, head = 0x1000, tail = 0x1000\<rparr>,
      headers = (headers (fresh_arena 0x1000 n))
        (0x1000 := \<lparr>canary = 8, size_h = 8, prev = 0, next = 0\<rparr>),
      bytes = bytes (fresh_arena 0x1000 n)\<rparr>"

definition two_blocks :: "addr \<Rightarrow> machine" where
  "two_blocks n =
     \<lparr>arena = \<lparr>start_addr = 0x1000, arena_size = n, head = 0x1000, tail = 0x1028\<rparr>,
      headers = (headers (fresh_arena 0x1000 n))
        (0x1000 := \<lparr>canary = 0x1020, size_h = 8, prev = 0, next = 0x1028\<rparr>,
         0x1028 := \<lparr>canary = 0x1008, size_h = 8, prev = 0x1000, next = 0\<rparr>),
      bytes = bytes (fresh_arena 0x1000 n)\<rparr>"

definition second_block_only :: "addr \<Rightarrow> machine" where
  "second_block_only n =
     \<lparr>arena = \<lparr>start_addr = 0x1000, arena_size = n, head = 0x1028, tail = 0x1028\<rparr>,
      headers = (headers (fresh_arena 0x1000 n))
        (0x1000 := \<lparr>canary = 0x1020, size_h = 8, prev = 0, next = 0x1028\<rparr>,
         0x1028 := \<lparr>canary = 0x1008, size_h = 8, prev = 0, next = 0\<rparr>),
      bytes = bytes (fresh_arena 0x1000 n)\<rparr>"

definition leading_gap_filled :: "addr \<Rightarrow> machine" where
  "leading_gap_filled n =
     \<lparr>arena = \<lparr>start_addr = 0x1000, arena_size = n, head = 0x1000, tail = 0x1028\<rparr>,
      headers = (headers (fresh_arena 0x1000 n))
        (0x1000 := \<lparr>canary = 0x1020, size_h = 8, prev = 0, next = 0x1028\<rparr>,
         0x1028 := \<lparr>canary = 0x1008, size_h = 8, prev = 0, next = 0\<rparr>),
      bytes = bytes (fresh_arena 0x1000 n)\<rparr>"


section \<open>Basic facts\<close>


lemma a_malloc_first_fields:
  "a_malloc_first hs nb ps nx nb = \<lparr>canary = ps XOR 0 XOR nx, size_h = ps, prev = 0, next = nx\<rparr>"
  by (simp add: a_malloc_first_def Let_def store_size_def store_prev_def store_next_def
      store_canary_def compute_canary_def)

lemma a_malloc_first_other: "q \<noteq> nb \<Longrightarrow> a_malloc_first hs nb ps nx q = hs q"
  by (simp add: a_malloc_first_def Let_def store_size_def store_prev_def store_next_def
      store_canary_def)

lemma a_malloc_empty:
  assumes "head (arena m) = 0"
    and "\<not> compute_block_size (next_padding_size sz) > arena_size (arena m)"
  shows "a_malloc m sz =
    Some (m\<lparr>headers := a_malloc_first (headers m) (start_addr (arena m)) (next_padding_size sz) 0,
            arena := (arena m)\<lparr>head := start_addr (arena m), tail := start_addr (arena m)\<rparr>\<rparr>,
          header_to_dataptr (start_addr (arena m)))"
  using assms by (simp add: a_malloc_def Let_def)

text \<open>The seven sizes above \<^verbatim>\<open>SIZE_MAX - 7\<close>.\<close>

lemma word64_above_minus_8:
  assumes "(sz::addr) > - 8"
  shows "sz \<in> {- 7, - 6, - 5, - 4, - 3, - 2, - 1}"
proof -
  from assms have "unat sz > 18446744073709551608"
    by (simp add: word_less_nat_alt)
  moreover have "unat sz < 18446744073709551616"
    using unsigned_less [of sz, where ?'a = nat] by simp
  ultimately have "unat sz \<in> {18446744073709551609, 18446744073709551610, 18446744073709551611,
      18446744073709551612, 18446744073709551613, 18446744073709551614, 18446744073709551615}"
    by auto
  moreover have "sz = word_of_nat (unat sz)" by simp
  ultimately have "sz = word_of_nat 18446744073709551609 \<or> sz = word_of_nat 18446744073709551610
     \<or> sz = word_of_nat 18446744073709551611 \<or> sz = word_of_nat 18446744073709551612
     \<or> sz = word_of_nat 18446744073709551613 \<or> sz = word_of_nat 18446744073709551614
     \<or> sz = word_of_nat 18446744073709551615"
    by (elim insertE emptyE) simp_all
  then show ?thesis
    by (elim disjE) simp_all
qed

lemma next_padding_size_top:
  assumes "sz > - 1 - (WORDSIZE - 1)"
  shows "next_padding_size sz = 0"
proof -
  from assms have "sz > - 8" by (simp add: WORDSIZE_def)
  then have "sz \<in> {- 7, - 6, - 5, - 4, - 3, - 2, - 1}" by (rule word64_above_minus_8)
  then show ?thesis
    by (auto simp: next_padding_size_def WORDSIZE_def ALIGN_SIZE_def PADDING_SIZE_def)
qed

lemmas const_defs = WORDSIZE_def ALIGN_SIZE_def PADDING_SIZE_def HEADER_LENGHT_def

lemmas helper_defs = next_padding_size_def compute_block_size_def header_to_dataptr_def
  ptr_to_header_ptr_def pointer_end_block_def available_block_space_def compute_canary_def

lemmas store_defs = store_size_def store_prev_def store_next_def store_canary_def

lemmas run_defs = fresh_arena_def arena_init_def one_block_def two_blocks_def
  second_block_only_def leading_gap_filled_def

lemma next_padding_size_8: "next_padding_size 8 = 8"
  by (simp add: next_padding_size_def const_defs)


subsection \<open>The run on a concrete arena\<close>

lemma run_step1: "a_malloc (fresh_arena 0x1000 n) 8 =
    (if 40 > n then Some (fresh_arena 0x1000 n, 0) else Some (one_block n, 0x1020))"
  by (simp add: a_malloc_def Let_def run_defs next_padding_size_8
      a_malloc_first_def store_defs helper_defs const_defs)

lemma run_step2_1024: "a_malloc (one_block 1024) 8 = Some (two_blocks 1024, 0x1048)"
  by (simp add: a_malloc_def Let_def run_defs next_padding_size_8
      a_malloc_search.simps a_malloc_link_def store_defs helper_defs const_defs fun_upd_twist)

lemma run_step2_64: "a_malloc (one_block 64) 8 = Some (two_blocks 64, 0x1048)"
  by (simp add: a_malloc_def Let_def run_defs next_padding_size_8
      a_malloc_search.simps a_malloc_link_def store_defs helper_defs const_defs fun_upd_twist)

lemma run_step3: "a_free (two_blocks n) 0x1020 = second_block_only n"
  by (simp add: a_free_def Let_def run_defs store_defs helper_defs const_defs fun_upd_twist)

lemma run_step4: "a_malloc (second_block_only 1024) 8 = Some (leading_gap_filled 1024, 0x1020)"
  by (simp add: a_malloc_def Let_def run_defs next_padding_size_8
      a_malloc_first_def store_defs helper_defs const_defs fun_upd_twist)

subsection \<open>Header lists\<close>


lemma block_list_functional:
  "block_list hs p as \<Longrightarrow> block_list hs p bs \<Longrightarrow> as = bs"
proof (induction as arbitrary: p bs)
  case Nil
  then show ?case by (cases bs) auto
next
  case (Cons a as)
  then show ?case by (cases bs) auto
qed

lemma block_list_suffix:
  "block_list hs p (xs @ b # ys) \<Longrightarrow> block_list hs b (b # ys)"
  by (induction xs arbitrary: p) auto

lemma block_list_distinct: "block_list hs p bs \<Longrightarrow> distinct bs"
proof (induction bs arbitrary: p)
  case Nil
  then show ?case by simp
next
  case (Cons b bs)
  then have rest: "block_list hs (next (hs b)) bs" and pb: "p = b"
    by simp_all
  have "b \<notin> set bs"
  proof
    assume "b \<in> set bs"
    then obtain xs ys where split: "bs = xs @ b # ys"
      by (auto simp: in_set_conv_decomp)
    with rest have "block_list hs b (b # ys)"
      by (auto dest: block_list_suffix)
    moreover from Cons.prems pb have "block_list hs b (b # bs)"
      by simp
    ultimately have "b # ys = b # bs"
      by (rule block_list_functional)
    with split show False
      by simp
  qed
  with Cons.IH [OF rest] show ?case
    by simp
qed

lemma block_list_nonnull: "block_list hs p bs \<Longrightarrow> 0 \<notin> set bs"
  by (induction bs arbitrary: p) auto

text \<open>A list that ends in a null pointer has fewer than \<open>2 ^ 64\<close> headers, so a
  \<^verbatim>\<open>size_t\<close> counter of them does not wrap.\<close>

lemma block_list_length:
  assumes "block_list hs p bs"
  shows "length bs < 2 ^ 64"
proof -
  have "distinct bs" "0 \<notin> set bs"
    using assms by (auto dest: block_list_distinct block_list_nonnull)
  then have "length bs = card (set bs)"
    by (simp add: distinct_card)
  also have "set bs \<subseteq> UNIV - {0}"
    using \<open>0 \<notin> set bs\<close> by auto
  then have "card (set bs) \<le> card (UNIV - {0 :: addr})"
    by (intro card_mono) auto
  also have "card (UNIV - {0 :: addr}) = 2 ^ 64 - 1"
    by (simp add: card_Diff_singleton card_word)
  finally show ?thesis
    by simp
qed

lemma strict_sorted_last_Max:
  "sorted_wrt (<) (bs :: addr list) \<Longrightarrow> bs \<noteq> [] \<Longrightarrow> last bs = Max (set bs)"
proof (induction bs)
  case Nil
  then show ?case by simp
next
  case (Cons b bs)
  show ?case
  proof (cases bs)
    case Nil
    then show ?thesis by simp
  next
    case (Cons c cs)
    with Cons.prems Cons.IH have "last bs = Max (set bs)" and "\<forall>x\<in>set bs. b < x"
      by simp_all
    moreover have "last bs \<in> set bs"
      using Cons by simp
    ultimately have "b < Max (set bs)"
      by metis
    then have "max b (Max (set bs)) = Max (set bs)"
      by (simp add: max_def less_imp_le)
    with \<open>last bs = Max (set bs)\<close> Cons show ?thesis
      by simp
  qed
qed

subsection \<open>Termination on a list that ends\<close>

lemma arena_info_loop_block_list:
  "block_list hs p bs \<Longrightarrow>
   arena_info_loop a hs p l info =
     Some (if bs = [] then l else last bs,
           info\<lparr>allocated_size := allocated_size info
                    + sum_list (map (\<lambda>b. size_h (hs b) + HEADER_LENGHT) bs),
                allocated_blocks := allocated_blocks info + of_nat (length bs),
                fragmentation_bytes := fragmentation_bytes info
                    + sum_list (map (\<lambda>b. next (hs b) - pointer_end_block hs b)
                                    (filter (\<lambda>b. next (hs b) \<noteq> 0) bs))\<rparr>)"
proof (induction bs arbitrary: p l info)
  case Nil
  then show ?case
    by (simp add: arena_info_loop.simps)
next
  case (Cons b bs)
  then have b: "p = b" "b \<noteq> 0" and rest: "block_list hs (next (hs b)) bs"
    by simp_all
  show ?case
    unfolding b(1)
    by (subst arena_info_loop.simps)
      (simp add: b(2) Cons.IH [OF rest] available_block_space_def add.assoc)
qed


subsection \<open>What the operations leave alone\<close>





lemma header_resized:
  "h\<lparr>size_h := n, canary := c\<rparr> = \<lparr>canary = c, size_h = n, prev = prev h, next = next h\<rparr>"
  by (cases h) simp

lemma a_realloc_resize_eq:
  "a_realloc_resize m hp n =
     m\<lparr>headers := (headers m)(hp := \<lparr>canary = n XOR prev (headers m hp) XOR next (headers m hp),
         size_h = n, prev = prev (headers m hp), next = next (headers m hp)\<rparr>)\<rparr>"
  by (simp add: a_realloc_resize_def Let_def store_size_def store_canary_def compute_canary_def
      header_resized)

subsection \<open>a_malloc returns on a list that ends\<close>



section \<open>Arena initialisation\<close>

text \<open>
  Claim C4, as stated: the initialisation sets the region bounds and empties the list.
  \<^verbatim>\<open>arena_init\<close> takes the arena only and assigns \<^verbatim>\<open>head\<close> and \<^verbatim>\<open>tail\<close>: the
  bounds after the call are the ones the arena had before it. Two arenas that differ in
  their bounds still differ in them after \<^verbatim>\<open>arena_init\<close>, and an arena that
  \<^verbatim>\<open>arena_destroy\<close> has cleared has the bounds \<open>0\<close> and \<open>0\<close> after
  \<^verbatim>\<open>arena_init\<close>: the call sets neither \<^verbatim>\<open>start_addr\<close> nor \<^verbatim>\<open>arena_size\<close>.
\<close>

theorem arena_init_bounds_counterexample:
  "start_addr (arena_init \<lparr>start_addr = 0x1000, arena_size = 1024, head = 1, tail = 1\<rparr>)
     \<noteq> start_addr (arena_init \<lparr>start_addr = 0x2000, arena_size = 64, head = 1, tail = 1\<rparr>)
   \<and> arena_size (arena_init \<lparr>start_addr = 0x1000, arena_size = 1024, head = 1, tail = 1\<rparr>)
     \<noteq> arena_size (arena_init \<lparr>start_addr = 0x2000, arena_size = 64, head = 1, tail = 1\<rparr>)
   \<and> arena_init (arena_destroy \<lparr>start_addr = 0x1000, arena_size = 1024, head = 1, tail = 1\<rparr>)
     = \<lparr>start_addr = 0, arena_size = 0, head = 0, tail = 0\<rparr>"
  by (simp add: arena_init_def arena_destroy_def)

text \<open>
  Claim C4, amended: \<^verbatim>\<open>arena_init\<close> empties the list (\<^verbatim>\<open>head\<close> and \<^verbatim>\<open>tail\<close> become
  null) and leaves \<^verbatim>\<open>start_addr\<close> and \<^verbatim>\<open>arena_size\<close> as the host set them. It is a
  total function: there is no failure mode.
\<close>

theorem arena_init_empties_list:
  "head (arena_init a) = 0 \<and> tail (arena_init a) = 0
   \<and> start_addr (arena_init a) = start_addr a \<and> arena_size (arena_init a) = arena_size a"
  by (simp add: arena_init_def)

section \<open>Padding wraps around\<close>

text \<open>
  Claim C10: the padding is computed modulo \<open>2 ^ 64\<close>. \<^verbatim>\<open>SIZE_MAX\<close> is the word
  \<open>- 1\<close>. For every size above \<^verbatim>\<open>SIZE_MAX - (WORDSIZE - 1)\<close> the padded size is \<open>0\<close>,
  which is less than the request, and on an empty arena of at least \<^verbatim>\<open>HEADER_LENGHT\<close>
  bytes \<^verbatim>\<open>a_malloc\<close> with such a size returns the data pointer of a block whose
  \<^verbatim>\<open>size\<close> field is \<open>0\<close>, not \<^verbatim>\<open>NULL\<close>.
\<close>

theorem padding_wraps_a_malloc_succeeds:
  assumes "sz > - 1 - (WORDSIZE - 1)"
  shows "next_padding_size sz = 0 \<and> next_padding_size sz < sz
     \<and> (head (arena m) = 0 \<and> HEADER_LENGHT \<le> arena_size (arena m)
          \<and> header_to_dataptr (start_addr (arena m)) \<noteq> 0
        \<longrightarrow> (\<exists>m'. a_malloc m sz = Some (m', header_to_dataptr (start_addr (arena m)))
               \<and> head (arena m') = start_addr (arena m)
               \<and> size_h (headers m' (start_addr (arena m))) = 0))"
proof -
  have p: "next_padding_size sz = 0"
    using assms by (rule next_padding_size_top)
  have "sz \<noteq> 0"
    using assms by auto
  then have "0 < sz"
    by (simp add: word_neq_0_conv)
  with p show ?thesis
    by (auto simp: a_malloc_empty a_malloc_first_fields compute_block_size_def not_less)
qed

theorem padding_wraps_a_malloc_succeeds_witness:
  "next_padding_size (- 1) = 0
   \<and> (\<exists>m'. a_malloc (fresh_arena 0x1000 1024) (- 1) = Some (m', 0x1020)
          \<and> head (arena m') = 0x1000 \<and> size_h (headers m' 0x1000) = 0)"
  using padding_wraps_a_malloc_succeeds [of "- 1" "fresh_arena 0x1000 1024"]
  by (simp add: fresh_arena_def arena_init_def WORDSIZE_def HEADER_LENGHT_def header_to_dataptr_def)

section \<open>Placement in the leading gap\<close>

text \<open>
  Claim C1: when \<^verbatim>\<open>a_malloc\<close> places a block in the leading gap, it writes the header
  at \<^verbatim>\<open>start_addr\<close>, makes it the head with \<^verbatim>\<open>prev\<close> null and \<^verbatim>\<open>next\<close> the old
  head, and updates the old head's \<^verbatim>\<open>prev\<close> and canary. The run
  \<^verbatim>\<open>p1 = a_malloc(8); p2 = a_malloc(8); a_free(p1); a_malloc(8)\<close> on 1024 bytes at
  \<open>0x1000\<close> takes the leading-gap branch in its last call. Afterwards the head is the
  new header at \<open>0x1000\<close> and its \<^verbatim>\<open>next\<close> is the old head \<open>0x1028\<close>, but the old
  head's \<^verbatim>\<open>prev\<close> is still null and its canary is still \<open>0x1008\<close>, the value
  written when its \<^verbatim>\<open>prev\<close> was \<open>0x1000\<close>: the branch assigns neither. A later
  \<^verbatim>\<open>a_free(p2)\<close> therefore takes the old head for the first block and empties the
  list, although the block at \<open>0x1000\<close> has not been released.
\<close>

theorem a_malloc_leading_gap_old_head_untouched:
  "a_malloc (fresh_arena 0x1000 1024) 8 = Some (one_block 1024, 0x1020)
   \<and> a_malloc (one_block 1024) 8 = Some (two_blocks 1024, 0x1048)
   \<and> a_free (two_blocks 1024) 0x1020 = second_block_only 1024
   \<and> head (arena (second_block_only 1024)) - start_addr (arena (second_block_only 1024)) = 40
   \<and> compute_block_size (next_padding_size 8) = 40
   \<and> a_malloc (second_block_only 1024) 8 = Some (leading_gap_filled 1024, 0x1020)
   \<and> head (arena (leading_gap_filled 1024)) = 0x1000
   \<and> prev (headers (leading_gap_filled 1024) 0x1000) = 0
   \<and> next (headers (leading_gap_filled 1024) 0x1000) = 0x1028
   \<and> prev (headers (leading_gap_filled 1024) 0x1028) = 0
   \<and> headers (leading_gap_filled 1024) 0x1028 = headers (second_block_only 1024) 0x1028
   \<and> head (arena (a_free (leading_gap_filled 1024) 0x1048)) = 0
   \<and> tail (arena (a_free (leading_gap_filled 1024) 0x1048)) = 0"
  by (simp add: run_step1 run_step2_1024 run_step3 run_step4 next_padding_size_8)
    (simp add: run_defs a_free_def Let_def store_defs helper_defs const_defs)

section \<open>List invariants after an operation\<close>

text \<open>
  Claim C2: after every completed \<^verbatim>\<open>a_malloc\<close>, \<^verbatim>\<open>a_realloc\<close> or \<^verbatim>\<open>a_free\<close> every
  header reachable from the head has consistent links and a canary equal to the checksum
  of its size and links. After \<^verbatim>\<open>p1 = a_malloc(8); p2 = a_malloc(8); a_free(p1)\<close> the
  list is the one header \<open>0x1028\<close>. \<^verbatim>\<open>a_free\<close> has set its \<^verbatim>\<open>prev\<close> to null and has
  not recomputed its canary: the stored canary is \<open>0x1008\<close>, the checksum of its fields
  is \<open>8\<close>.
\<close>

theorem a_free_leaves_stale_canary:
  "a_malloc (fresh_arena 0x1000 1024) 8 = Some (one_block 1024, 0x1020)
   \<and> a_malloc (one_block 1024) 8 = Some (two_blocks 1024, 0x1048)
   \<and> a_free (two_blocks 1024) 0x1020 = second_block_only 1024
   \<and> block_list (headers (second_block_only 1024)) (head (arena (second_block_only 1024))) [0x1028]
   \<and> prev (headers (second_block_only 1024) 0x1028) = 0
   \<and> canary (headers (second_block_only 1024) 0x1028) = 0x1008
   \<and> compute_canary (headers (second_block_only 1024) 0x1028) = 8"
  by (simp add: run_step1 run_step2_1024 run_step3)
    (simp add: run_defs compute_canary_def)

section \<open>When a_malloc fails\<close>

text \<open>
  Claim C3: \<^verbatim>\<open>a_malloc\<close> returns \<^verbatim>\<open>NULL\<close> exactly when no gap holds the padded size
  plus \<^verbatim>\<open>HEADER_LENGHT\<close>, and then leaves the memory unchanged. On an arena of 64 bytes
  at \<open>0x1000\<close> that holds one block of 8 bytes, the head is at \<^verbatim>\<open>start_addr\<close> (no
  leading gap), the only gap is the 24 bytes after the block, and a request of 8 bytes
  needs 40. \<^verbatim>\<open>a_malloc(8)\<close> still returns \<open>0x1048\<close>: the test before the insertion
  compares \<^verbatim>\<open>newblock + padded_size\<close>, here \<open>0x1028 + 8\<close>, with the end of the arena
  \<open>0x1040\<close> and so leaves the 32 bytes of the header out. The new header lies at
  \<open>0x1028\<close>, its block ends at \<open>0x1050\<close>, beyond the arena.
\<close>

theorem a_malloc_trailing_gap_overruns_arena:
  "a_malloc (fresh_arena 0x1000 64) 8 = Some (one_block 64, 0x1020)
   \<and> head (arena (one_block 64)) = start_addr (arena (one_block 64))
   \<and> block_list (headers (one_block 64)) (head (arena (one_block 64))) [0x1000]
   \<and> available_block_space (arena (one_block 64)) (headers (one_block 64)) 0x1000 = 24
   \<and> compute_block_size (next_padding_size 8) = 40
   \<and> a_malloc (one_block 64) 8 = Some (two_blocks 64, 0x1048)
   \<and> ptr_to_header_ptr 0x1048 = 0x1028
   \<and> pointer_end_block (headers (two_blocks 64)) 0x1028 = 0x1050
   \<and> start_addr (arena (two_blocks 64)) + arena_size (arena (two_blocks 64)) = 0x1040"
  by (simp add: run_step1 run_step2_64 next_padding_size_8)
    (simp add: run_defs helper_defs const_defs)

section \<open>Resize by relocation\<close>



section \<open>Statistics\<close>

text \<open>
  Claim C6: \<^verbatim>\<open>arena_info\<close> returns the statistics of the list and changes nothing (it
  is a function of the memory that yields the \<^verbatim>\<open>arena_info_t\<close> only). For every arena
  whose list from \<^verbatim>\<open>head\<close> is \<open>bs\<close> and ends in a null pointer, it returns:
  \<^verbatim>\<open>allocated_blocks\<close> the number of headers (which does not wrap), \<^verbatim>\<open>allocated_size\<close>
  the sum of \<^verbatim>\<open>size + HEADER_LENGHT\<close> over the headers, \<^verbatim>\<open>fragmentation_bytes\<close> the
  sum, over the headers that have a successor, of the distance from the end of the block
  to the successor, and \<^verbatim>\<open>used_size\<close> the distance from \<^verbatim>\<open>start_addr\<close> to the end of the
  last block of the list, or \<open>0\<close> for the empty list. In a list ordered by address
  the last block is the one of highest address. The sums are sums of \<^verbatim>\<open>size_t\<close>.
\<close>

theorem arena_info_stats:
  assumes "block_list (headers m) (head (arena m)) bs"
  shows "arena_info m =
     Some \<lparr>total_size = arena_size (arena m),
           used_size = (if bs = [] then 0
                        else pointer_end_block (headers m) (last bs) - start_addr (arena m)),
           allocated_size = sum_list (map (\<lambda>b. size_h (headers m b) + HEADER_LENGHT) bs),
           fragmentation_bytes =
             sum_list (map (\<lambda>b. next (headers m b) - pointer_end_block (headers m) b)
                           (filter (\<lambda>b. next (headers m b) \<noteq> 0) bs)),
           allocated_blocks = of_nat (length bs)\<rparr>
     \<and> unat (of_nat (length bs) :: addr) = length bs
     \<and> (sorted_wrt (<) bs \<and> bs \<noteq> [] \<longrightarrow> last bs = Max (set bs))"
proof -
  have count: "unat (of_nat (length bs) :: addr) = length bs"
    using block_list_length [OF assms] by (simp add: unat_of_nat)
  have highest: "sorted_wrt (<) bs \<and> bs \<noteq> [] \<longrightarrow> last bs = Max (set bs)"
    by (simp add: strict_sorted_last_Max)
  have "arena_info m =
     Some \<lparr>total_size = arena_size (arena m),
           used_size = (if bs = [] then 0
                        else pointer_end_block (headers m) (last bs) - start_addr (arena m)),
           allocated_size = sum_list (map (\<lambda>b. size_h (headers m b) + HEADER_LENGHT) bs),
           fragmentation_bytes =
             sum_list (map (\<lambda>b. next (headers m b) - pointer_end_block (headers m) b)
                           (filter (\<lambda>b. next (headers m b) \<noteq> 0) bs)),
           allocated_blocks = of_nat (length bs)\<rparr>"
  proof (cases bs)
    case Nil
    with assms show ?thesis
      by (simp add: arena_info_def Let_def)
  next
    case (Cons b bs')
    with assms have "head (arena m) \<noteq> 0"
      by auto
    then show ?thesis
      using Cons
      by (simp add: arena_info_def Let_def arena_info_loop_block_list [OF assms]
          pointer_end_block_def del: of_nat_Suc)
  qed
  with count highest show ?thesis
    by blast
qed

theorem arena_info_stats_witness:
  "arena_info (a_realloc_resize (two_blocks 1024) 0x1000 0) =
     Some \<lparr>total_size = 1024, used_size = 80, allocated_size = 72,
           fragmentation_bytes = 8, allocated_blocks = 2\<rparr>
   \<and> Max (set [0x1000, 0x1028 :: addr]) = 0x1028"
proof -
  let ?m = "a_realloc_resize (two_blocks 1024) 0x1000 0"
  have list: "block_list (headers ?m) (head (arena ?m)) [0x1000, 0x1028]"
    by (simp add: a_realloc_resize_eq run_defs)
  have ordered: "sorted_wrt (<) [0x1000, 0x1028 :: addr] \<and> [0x1000, 0x1028 :: addr] \<noteq> []"
    by simp
  from arena_info_stats [OF list] ordered
  have "arena_info ?m =
     Some \<lparr>total_size = 1024, used_size = 80, allocated_size = 72,
           fragmentation_bytes = 8, allocated_blocks = 2\<rparr>"
    and "last [0x1000, 0x1028 :: addr] = Max (set [0x1000, 0x1028])"
    by (simp_all add: a_realloc_resize_eq run_defs helper_defs const_defs)
  then show ?thesis
    by simp
qed

section \<open>Resize in place\<close>



section \<open>Release\<close>

text \<open>
  Claim C8: \<^verbatim>\<open>a_free\<close> with a null pointer changes nothing. With another pointer it
  unlinks the header \<open>h\<close> before the pointer: the \<^verbatim>\<open>next\<close> of the previous header, or
  \<^verbatim>\<open>head\<close> when \<open>h\<close> has no previous header, becomes the \<^verbatim>\<open>next\<close> of \<open>h\<close>; the
  \<^verbatim>\<open>prev\<close> of the next header, or \<^verbatim>\<open>tail\<close> when \<open>h\<close> has no next header, becomes
  the \<^verbatim>\<open>prev\<close> of \<open>h\<close>. The bounds of the arena and the payload bytes are kept.
\<close>

theorem a_free_unlinks:
  "a_free m 0 = m
   \<and> (ptr \<noteq> 0 \<longrightarrow>
       (let h = headers m (ptr_to_header_ptr ptr); m' = a_free m ptr
        in (if prev h \<noteq> 0
            then next (headers m' (prev h)) = next h \<and> head (arena m') = head (arena m)
            else head (arena m') = next h)
         \<and> (if next h \<noteq> 0
            then prev (headers m' (next h)) = prev h \<and> tail (arena m') = tail (arena m)
            else tail (arena m') = prev h)
         \<and> start_addr (arena m') = start_addr (arena m)
         \<and> arena_size (arena m') = arena_size (arena m)
         \<and> bytes m' = bytes m))"
  by (simp add: a_free_def Let_def store_next_def store_prev_def)

theorem a_free_unlinks_witness:
  "a_free (two_blocks 1024) 0 = two_blocks 1024
   \<and> next (headers (a_free (two_blocks 1024) 0x1048) 0x1000) = 0
   \<and> head (arena (a_free (two_blocks 1024) 0x1048)) = 0x1000
   \<and> tail (arena (a_free (two_blocks 1024) 0x1048)) = 0x1000"
  using a_free_unlinks [of "two_blocks 1024" "0x1048"]
  by (simp add: Let_def run_defs helper_defs const_defs)

section \<open>Resize to zero\<close>



end
